theory Spec2Isabelle
  imports Main "HOL-Library.AList" "HOL-Library.Multiset"
begin

section \<open>Data model (users/models.py, core/base_models.py)\<close>

text \<open>
  A point in time (a timezone-aware datetime) is the number of microseconds since the
  epoch, the resolution of Python's datetime. Every call of timezone.now() in the source
  is an explicit argument of the function that makes it.
\<close>

type_synonym timestamp = int

text \<open>timedelta(minutes=15) in User.increment_failed_attempts.\<close>

definition lock_duration :: int where
  "lock_duration = 15 * 60 * 1000000"

text \<open>
  The User model: the fields of AbstractUser that the authentication code reads
  (id, username, password hash, email, is_active, last_login) and the fields the class adds.
  IntegerField is a signed integer; nullable fields are options.
\<close>

record user =
  user_id :: int
  username :: string
  password :: string
  email :: string
  is_active :: bool
  last_login :: "timestamp option"
  role :: string
  full_name :: string
  department :: string
  phone :: string
  failed_login_attempts :: int
  account_locked_until :: "timestamp option"
  last_login_ip :: "string option"

text \<open>
  A freshly created user, with the defaults the model declares: role viewer, blank profile
  fields, no failed attempts, no lock, no login address, active.
\<close>

definition new_user :: "int \<Rightarrow> string \<Rightarrow> string \<Rightarrow> user" where
  "new_user uid name pwhash =
     \<lparr>user_id = uid, username = name, password = pwhash, email = [], is_active = True,
      last_login = None, role = ''viewer'', full_name = [], department = [], phone = [],
      failed_login_attempts = 0, account_locked_until = None, last_login_ip = None\<rparr>"

text \<open>BlacklistedToken: the token string is unique; user is a foreign key (the user's id).\<close>

record blacklisted_token =
  token :: string
  token_user :: int
  reason :: string
  expires_at :: timestamp

text \<open>AuthLog: user is a nullable foreign key; created_at comes from AbstractTimestampModel.\<close>

record auth_log =
  log_user :: "int option"
  username_attempted :: string
  event_type :: string
  ip_address :: string
  user_agent :: string
  success :: bool
  failure_reason :: string
  created_at :: timestamp

text \<open>
  The database: the users table keyed by its unique username, the blacklist keyed by its
  unique token string, and the audit log, in insertion order.
\<close>

record db =
  users :: "string \<rightharpoonup> user"
  blacklisted_tokens :: "string \<rightharpoonup> blacklisted_token"
  auth_logs :: "auth_log list"

section \<open>Account lockout (User methods)\<close>

text \<open>
  The methods mutate the object and save the two fields they changed; here they return
  the mutated object, and the caller writes it back to the row it was loaded from.
\<close>

definition is_account_locked :: "timestamp \<Rightarrow> user \<Rightarrow> bool \<times> user" where
  "is_account_locked now self =
     (case account_locked_until self of
        None \<Rightarrow> (False, self)
      | Some until \<Rightarrow>
          if now \<ge> until
          then (False, self\<lparr>account_locked_until := None, failed_login_attempts := 0\<rparr>)
          else (True, self))"

definition reset_failed_attempts :: "user \<Rightarrow> user" where
  "reset_failed_attempts self = self\<lparr>failed_login_attempts := 0, account_locked_until := None\<rparr>"

definition increment_failed_attempts :: "timestamp \<Rightarrow> user \<Rightarrow> user" where
  "increment_failed_attempts now self =
     (let self1 = self\<lparr>failed_login_attempts := failed_login_attempts self + 1\<rparr>
      in if failed_login_attempts self1 \<ge> 5
         then self1\<lparr>account_locked_until := Some (now + lock_duration)\<rparr>
         else self1)"

section \<open>Revocation store (BlacklistedToken.is_blacklisted)\<close>

text \<open>
  objects.get(token=token) finds the row or raises DoesNotExist; an expired row is deleted.
  The result is the boolean and the database after the call.
\<close>

definition is_blacklisted :: "timestamp \<Rightarrow> string \<Rightarrow> db \<Rightarrow> bool \<times> db" where
  "is_blacklisted now tok d =
     (case blacklisted_tokens d tok of
        Some blacklisted \<Rightarrow>
          if now < expires_at blacklisted then (True, d)
          else (False, d\<lparr>blacklisted_tokens := (blacklisted_tokens d)(tok := None)\<rparr>)
      | None \<Rightarrow> (False, d))"

section \<open>Response dictionaries\<close>

text \<open>
  The use cases return Python dicts, which keep insertion order: association lists of
  JSON-like values. d.get(k) is \<open>map_of d k\<close>; \<open>{**a, **b}\<close> is \<open>dict_merge a b\<close>, where a
  key of b replaces the value of the same key of a and a new key is appended.
\<close>

datatype jval = JBool bool | JInt int | JStr string | JObj "(string \<times> jval) list"

type_synonym dict = "(string \<times> jval) list"

definition dict_merge :: "dict \<Rightarrow> dict \<Rightarrow> dict" where
  "dict_merge base extra = fold (\<lambda>(k, v). AList.update k v) extra base"

text \<open>Python's truth value of a JSON-like value (\<open>not result['success']\<close>).\<close>

fun truthy :: "jval \<Rightarrow> bool" where
  "truthy (JBool b) = b"
| "truthy (JInt n) = (n \<noteq> 0)"
| "truthy (JStr s) = (s \<noteq> [])"
| "truthy (JObj d) = (d \<noteq> [])"

section \<open>Login use case (users/application/auth\_service.py)\<close>

text \<open>AuthErrorCodes.\<close>

definition INVALID_CREDENTIALS :: string where "INVALID_CREDENTIALS = ''AUTH-001''"
definition INACTIVE_ACCOUNT :: string where "INACTIVE_ACCOUNT = ''AUTH-002''"
definition ACCOUNT_LOCKED :: string where "ACCOUNT_LOCKED = ''AUTH-003''"
definition LOGOUT_FAILED :: string where "LOGOUT_FAILED = ''AUTH-004''"
definition TOKEN_REVOKED :: string where "TOKEN_REVOKED = ''AUTH-005''"
definition TOKEN_REFRESH_FAILED :: string where "TOKEN_REFRESH_FAILED = ''AUTH-006''"

text \<open>AuthEventData: failure\_reason defaults to the empty string and user to None.\<close>

record auth_event_data =
  ev_username :: string
  ev_event_type :: string
  ev_ip_address :: string
  ev_user_agent :: string
  ev_success :: bool
  ev_failure_reason :: string
  ev_user :: "user option"

text \<open>
  What the use case takes from libraries outside the repository, as parameters:
  Django's password hasher (raw password, stored hash), the formatting of a datetime as
  hours and minutes, and the token library. \<open>'tok\<close> is a RefreshToken object; the
  constructor RefreshToken(string) either yields one or raises, a TokenError or another
  exception, each with its text.
\<close>

datatype token_exc = TokenError string | OtherException string

record 'tok env =
  check_password :: "string \<Rightarrow> string \<Rightarrow> bool"
  strftime_HM :: "timestamp \<Rightarrow> string"
  for_user :: "user \<Rightarrow> 'tok"
  setitem :: "'tok \<Rightarrow> string \<Rightarrow> string \<Rightarrow> 'tok"
  access_token :: "'tok \<Rightarrow> string"
  token_str :: "'tok \<Rightarrow> string"
  RefreshToken :: "string \<Rightarrow> token_exc + 'tok"

text \<open>
  The clock readings of one call of login, one field for each place that reads the clock:
  the lock check at the top, increment\_failed\_attempts, the lock check after the failure,
  last\_login, and the creation time of the audit record.
\<close>

record clock =
  now_lock_check :: timestamp
  now_increment :: timestamp
  now_recheck :: timestamp
  now_last_login :: timestamp
  now_log :: timestamp

definition log_auth_event :: "timestamp \<Rightarrow> auth_event_data \<Rightarrow> db \<Rightarrow> db" where
  "log_auth_event now event_data d =
     d\<lparr>auth_logs := auth_logs d @
        [\<lparr>log_user = map_option user_id (ev_user event_data),
          username_attempted = ev_username event_data,
          event_type = ev_event_type event_data,
          ip_address = ev_ip_address event_data,
          user_agent = ev_user_agent event_data,
          success = ev_success event_data,
          failure_reason = ev_failure_reason event_data,
          created_at = now\<rparr>]\<rparr>"

definition error_response :: "string \<Rightarrow> string \<Rightarrow> dict" where
  "error_response error_code message =
     [(''success'', JBool False), (''error_code'', JStr error_code), (''message'', JStr message)]"

definition success_response :: "dict \<Rightarrow> dict" where
  "success_response data = dict_merge [(''success'', JBool True)] data"

definition serialize_user :: "user \<Rightarrow> dict" where
  "serialize_user u =
     [(''id'', JInt (user_id u)),
      (''username'', JStr (username u)),
      (''email'', JStr (email u)),
      (''role'', JStr (role u)),
      (''full_name'', JStr (full_name u)),
      (''department'', JStr (department u))]"

text \<open>user.save(...): the row the object was loaded from takes the object's fields.\<close>

definition save :: "string \<Rightarrow> user \<Rightarrow> db \<Rightarrow> db" where
  "save key u d = d\<lparr>users := (users d)(key \<mapsto> u)\<rparr>"

text \<open>
  The text of the "Account is locked" message. It formats account\_locked\_until, which is
  set whenever is\_account\_locked has answered True (lemma \<open>is_account_locked_True\<close>
  below), so the None branch is never taken by login.
\<close>

definition locked_message :: "'tok env \<Rightarrow> user \<Rightarrow> string" where
  "locked_message env u =
     (case account_locked_until u of
        Some until \<Rightarrow> ''Account is locked. Try again after '' @ strftime_HM env until
      | None \<Rightarrow> ''Account is locked. Try again after '')"

definition login ::
  "'tok env \<Rightarrow> clock \<Rightarrow> string \<Rightarrow> string \<Rightarrow> string \<Rightarrow> string \<Rightarrow> db \<Rightarrow> dict \<times> db" where
  "login env clk uname pw ip ua d =
     (case users d uname of
        None \<Rightarrow>
          (error_response INVALID_CREDENTIALS ''Invalid credentials'',
           log_auth_event (now_log clk)
             \<lparr>ev_username = uname, ev_event_type = ''login_failed'', ev_ip_address = ip,
              ev_user_agent = ua, ev_success = False, ev_failure_reason = ''Invalid username'',
              ev_user = None\<rparr> d)
      | Some user0 \<Rightarrow>
          (let (locked, user1) = is_account_locked (now_lock_check clk) user0;
               d1 = save uname user1 d
           in if locked then
                (error_response ACCOUNT_LOCKED (locked_message env user1),
                 log_auth_event (now_log clk)
                   \<lparr>ev_username = uname, ev_event_type = ''login_failed'', ev_ip_address = ip,
                    ev_user_agent = ua, ev_success = False, ev_failure_reason = ''Account locked'',
                    ev_user = Some user1\<rparr> d1)
              else if \<not> is_active user1 then
                (error_response INACTIVE_ACCOUNT
                   ''Account is inactive. Please contact administrator.'',
                 log_auth_event (now_log clk)
                   \<lparr>ev_username = uname, ev_event_type = ''login_failed'', ev_ip_address = ip,
                    ev_user_agent = ua, ev_success = False, ev_failure_reason = ''Account inactive'',
                    ev_user = Some user1\<rparr> d1)
              else if \<not> check_password env pw (password user1) then
                (let user2 = increment_failed_attempts (now_increment clk) user1;
                     d2 = save uname user2 d1;
                     d3 = log_auth_event (now_log clk)
                            \<lparr>ev_username = uname, ev_event_type = ''login_failed'',
                             ev_ip_address = ip, ev_user_agent = ua, ev_success = False,
                             ev_failure_reason = ''Invalid password'', ev_user = Some user2\<rparr> d2;
                     (locked_now, user3) = is_account_locked (now_recheck clk) user2;
                     d4 = save uname user3 d3
                 in if locked_now then
                      (error_response ACCOUNT_LOCKED
                         ''Too many failed attempts. Account locked for 15 minutes.'', d4)
                    else (error_response INVALID_CREDENTIALS ''Invalid credentials'', d4))
              else
                (let user2 = reset_failed_attempts user1;
                     d2 = save uname user2 d1;
                     user3 = user2\<lparr>last_login := Some (now_last_login clk),
                                    last_login_ip := Some ip\<rparr>;
                     d3 = save uname user3 d2;
                     refresh = for_user env user3;
                     refresh1 = setitem env refresh ''role'' (role user3);
                     refresh2 = setitem env refresh1 ''username'' (username user3);
                     d4 = log_auth_event (now_log clk)
                            \<lparr>ev_username = uname, ev_event_type = ''login_success'',
                             ev_ip_address = ip, ev_user_agent = ua, ev_success = True,
                             ev_failure_reason = [], ev_user = Some user3\<rparr> d3
                 in (success_response
                       [(''access_token'', JStr (access_token env refresh2)),
                        (''refresh_token'', JStr (token_str env refresh2)),
                        (''user'', JObj (serialize_user user3))], d4))))"

definition refresh_access_token :: "'tok env \<Rightarrow> timestamp \<Rightarrow> string \<Rightarrow> db \<Rightarrow> dict \<times> db" where
  "refresh_access_token env now refresh_token d =
     (let (revoked, d1) = is_blacklisted now refresh_token d
      in if revoked then (error_response TOKEN_REVOKED ''Token has been revoked'', d1)
         else
           (case RefreshToken env refresh_token of
              Inr token_obj \<Rightarrow>
                (success_response [(''access_token'', JStr (access_token env token_obj))], d1)
            | Inl (TokenError e) \<Rightarrow>
                (error_response TOKEN_REFRESH_FAILED (''Invalid token: '' @ e), d1)
            | Inl (OtherException e) \<Rightarrow>
                (error_response TOKEN_REFRESH_FAILED (''Token refresh failed: '' @ e), d1)))"

section \<open>Audit trail (AuthLog.Meta)\<close>

text \<open>
  Meta.ordering is ['-created\_at']: a query of the audit log without an order of its own
  returns the rows by descending creation time, for the whole table and for the rows of
  one user (the related name auth\_logs).
\<close>

definition order_by_created_at_desc :: "auth_log list \<Rightarrow> auth_log list" where
  "order_by_created_at_desc rows = sort_key (\<lambda>l. - created_at l) rows"

definition auth_logs_all :: "db \<Rightarrow> auth_log list" where
  "auth_logs_all d = order_by_created_at_desc (auth_logs d)"

definition auth_logs_of_user :: "int \<Rightarrow> db \<Rightarrow> auth_log list" where
  "auth_logs_of_user uid d =
     order_by_created_at_desc (filter (\<lambda>l. log_user l = Some uid) (auth_logs d))"

section \<open>Refresh endpoint (users/presentation/views.py)\<close>

text \<open>
  Response(data, status). The serializer is Django REST framework's: given the request
  data it yields either its field-keyed errors or the validated refresh\_token.
  \<open>result['success']\<close> raises KeyError on a dict without that key.
\<close>

record response =
  data :: dict
  status :: nat

datatype py_exception = KeyError string

definition refresh ::
  "(dict \<Rightarrow> dict + string) \<Rightarrow> 'tok env \<Rightarrow> timestamp \<Rightarrow> dict \<Rightarrow> db
     \<Rightarrow> (py_exception + response) \<times> db" where
  "refresh TokenRefreshSerializer env now request_data d =
     (case TokenRefreshSerializer request_data of
        Inl errors \<Rightarrow> (Inr \<lparr>data = errors, status = 400\<rparr>, d)
      | Inr refresh_token \<Rightarrow>
          (let (result, d1) = refresh_access_token env now refresh_token d
           in case map_of result ''success'' of
                None \<Rightarrow> (Inl (KeyError ''success''), d1)
              | Some ok \<Rightarrow>
                  if \<not> truthy ok then
                    (if map_of result ''error_code''
                          \<in> set [Some (JStr ''AUTH-005''), Some (JStr ''AUTH-006'')]
                     then (Inr \<lparr>data = result, status = 401\<rparr>, d1)
                     else (Inr \<lparr>data = result, status = 400\<rparr>, d1))
                  else (Inr \<lparr>data = result, status = 200\<rparr>, d1)))"

section \<open>Object permissions (core/permissions.py)\<close>

text \<open>
  request.user is an AnonymousUser, which has no role attribute, or a User. An object may
  or may not have the attributes uploaded\_by and user; each is a nullable reference to a
  user. Two users are equal when their primary keys are; None and AnonymousUser equal no
  user.
\<close>

datatype request_user = AnonymousUser | AuthUser user

datatype 'a attr = NoAttr | Attr 'a

record obj =
  uploaded_by :: "int option attr"
  obj_user :: "int option attr"

definition ref_eq :: "int option \<Rightarrow> request_user \<Rightarrow> bool" where
  "ref_eq r ru =
     (case r of
        None \<Rightarrow> False
      | Some uid \<Rightarrow> (case ru of AnonymousUser \<Rightarrow> False | AuthUser u \<Rightarrow> uid = user_id u))"

definition has_object_permission :: "request_user \<Rightarrow> obj \<Rightarrow> bool" where
  "has_object_permission ru ob =
     (if (case ru of AnonymousUser \<Rightarrow> False | AuthUser u \<Rightarrow> role u = ''admin'') then True
      else
        (case uploaded_by ob of
           Attr owner \<Rightarrow> ref_eq owner ru
         | NoAttr \<Rightarrow>
             (case obj_user ob of
                Attr owner \<Rightarrow> ref_eq owner ru
              | NoAttr \<Rightarrow> False)))"

text \<open>
  What the evaluator reads of its arguments: the requester's role, if it has one, and
  the owner the object records, which is uploaded\_by when the object has that attribute
  and user otherwise.
\<close>

definition requester_role :: "request_user \<Rightarrow> string option" where
  "requester_role ru = (case ru of AnonymousUser \<Rightarrow> None | AuthUser u \<Rightarrow> Some (role u))"

definition recorded_owner :: "obj \<Rightarrow> int option" where
  "recorded_owner ob =
     (case uploaded_by ob of
        Attr owner \<Rightarrow> owner
      | NoAttr \<Rightarrow> (case obj_user ob of Attr owner \<Rightarrow> owner | NoAttr \<Rightarrow> None))"

definition ownership_match :: "request_user \<Rightarrow> obj \<Rightarrow> bool" where
  "ownership_match ru ob =
     (case ru of
        AnonymousUser \<Rightarrow> False
      | AuthUser u \<Rightarrow> recorded_owner ob = Some (user_id u))"

text \<open>
  The decision as the specification words it, a function of the role and of the ownership
  match alone: an admin always passes, the owner passes whatever the role, all others are
  denied. It is compared with has\_object\_permission below.
\<close>

definition spec_object_permission :: "string option \<Rightarrow> bool \<Rightarrow> bool" where
  "spec_object_permission requester_role_opt is_owner =
     (requester_role_opt = Some ''admin'' \<or> is_owner)"

section \<open>The lockout invariant\<close>

text \<open>
  The failure counter is never negative, and a lock is set only while the counter is at
  least 5.
\<close>

definition lockout_invariant :: "user \<Rightarrow> bool" where
  "lockout_invariant u =
     (0 \<le> failed_login_attempts u
      \<and> (account_locked_until u \<noteq> None \<longrightarrow> 5 \<le> failed_login_attempts u))"

section \<open>A reference instance of the library parameters\<close>

text \<open>
  An instance of the parameters on which the model can be run: a password hash is the
  password behind a prefix, a token object is its list of claims, and the string of a
  refresh token is a prefix followed by the values of its claims. A string parses as a
  refresh token when it starts with that prefix.
\<close>

definition two_digits :: "int \<Rightarrow> string" where
  "two_digits n = [char_of (48 + n div 10), char_of (48 + n mod 10)]"

definition ref_env :: "(string \<times> string) list env" where
  "ref_env =
     \<lparr>check_password = (\<lambda>raw h. h = ''hash:'' @ raw),
      strftime_HM = (\<lambda>t. two_digits ((t div 3600000000) mod 24) @ '':''
                          @ two_digits ((t div 60000000) mod 60)),
      for_user = (\<lambda>u. [(''sub'', username u)]),
      setitem = (\<lambda>t k v. AList.update k v t),
      access_token = (\<lambda>t. ''access.'' @ concat (map snd t)),
      token_str = (\<lambda>t. ''refresh.'' @ concat (map snd t)),
      RefreshToken = (\<lambda>s. if take 8 s = ''refresh.'' then Inr [(''raw'', s)]
                           else Inl (TokenError ''Token is invalid or expired''))\<rparr>"

text \<open>A serializer that accepts a request whose refresh\_token is a non-empty string.\<close>

definition ref_serializer :: "dict \<Rightarrow> dict + string" where
  "ref_serializer request_data =
     (case map_of request_data ''refresh_token'' of
        Some (JStr s) \<Rightarrow>
          if s = [] then Inl [(''refresh_token'', JStr ''This field may not be blank.'')]
          else Inr s
      | Some _ \<Rightarrow> Inl [(''refresh_token'', JStr ''Not a valid string.'')]
      | None \<Rightarrow> Inl [(''refresh_token'', JStr ''This field is required.'')])"

text \<open>The user alice, created with the model's defaults, and a database holding her alone.\<close>

definition alice :: user where
  "alice = new_user 1 ''alice'' ''hash:Secret123!''"

definition db0 :: db where
  "db0 = \<lparr>users = [''alice'' \<mapsto> alice], blacklisted_tokens = Map.empty, auth_logs = []\<rparr>"

definition clock0 :: clock where
  "clock0 = \<lparr>now_lock_check = 100, now_increment = 101, now_recheck = 103,
             now_last_login = 101, now_log = 102\<rparr>"

section \<open>Lockout after five failures\<close>

lemma increment_failed_attempts_count:
  "failed_login_attempts (increment_failed_attempts t u) = failed_login_attempts u + 1"
  by (simp add: increment_failed_attempts_def Let_def)

lemma increment_failed_attempts_lock:
  "4 \<le> failed_login_attempts u \<Longrightarrow>
   account_locked_until (increment_failed_attempts t u) = Some (t + lock_duration)"
  by (simp add: increment_failed_attempts_def Let_def)

lemma is_account_locked_before:
  "account_locked_until u = Some until \<Longrightarrow> now < until \<Longrightarrow> is_account_locked now u = (True, u)"
  by (simp add: is_account_locked_def)

lemma is_account_locked_lapsed:
  "account_locked_until u = Some until \<Longrightarrow> until \<le> now \<Longrightarrow>
   is_account_locked now u = (False, u\<lparr>account_locked_until := None, failed_login_attempts := 0\<rparr>)"
  by (simp add: is_account_locked_def)

text \<open>
  C1. A user whose failure counter is not negative fails five more times, at the times
  t1, ..., t5, with no success in between. Then is_account_locked answers True, and leaves
  the user as it is, at every time strictly before t5 + 15 minutes; at every time from
  t5 + 15 minutes on it answers False and, on that check, sets failed_login_attempts to 0
  and account_locked_until to None.
\<close>

theorem five_failures_lock_for_15_minutes:
  assumes "0 \<le> failed_login_attempts u"
  shows "(\<forall>now. now < t5 + lock_duration \<longrightarrow>
            is_account_locked now (fold increment_failed_attempts [t1, t2, t3, t4, t5] u)
              = (True, fold increment_failed_attempts [t1, t2, t3, t4, t5] u))
       \<and> (\<forall>now. t5 + lock_duration \<le> now \<longrightarrow>
            fst (is_account_locked now (fold increment_failed_attempts [t1, t2, t3, t4, t5] u)) = False
          \<and> failed_login_attempts
               (snd (is_account_locked now (fold increment_failed_attempts [t1, t2, t3, t4, t5] u))) = 0
          \<and> account_locked_until
               (snd (is_account_locked now (fold increment_failed_attempts [t1, t2, t3, t4, t5] u))) = None)"
proof -
  let ?u4 = "fold increment_failed_attempts [t1, t2, t3, t4] u"
  let ?u5 = "fold increment_failed_attempts [t1, t2, t3, t4, t5] u"
  have "failed_login_attempts ?u4 = failed_login_attempts u + 4"
    by (simp add: increment_failed_attempts_count)
  with assms have "4 \<le> failed_login_attempts ?u4" by simp
  then have "account_locked_until (increment_failed_attempts t5 ?u4) = Some (t5 + lock_duration)"
    by (rule increment_failed_attempts_lock)
  then have lock: "account_locked_until ?u5 = Some (t5 + lock_duration)" by simp
  show ?thesis
    using is_account_locked_before [OF lock] is_account_locked_lapsed [OF lock] by simp
qed

theorem five_failures_lock_for_15_minutes_witness:
  "is_account_locked 1899999999
     (fold increment_failed_attempts [10, 20, 30, 40, 1000000000] (new_user 1 ''alice'' ''hash''))
     = (True, fold increment_failed_attempts [10, 20, 30, 40, 1000000000] (new_user 1 ''alice'' ''hash''))
   \<and> fst (is_account_locked 1900000000
        (fold increment_failed_attempts [10, 20, 30, 40, 1000000000] (new_user 1 ''alice'' ''hash''))) = False
   \<and> failed_login_attempts (snd (is_account_locked 1900000000
        (fold increment_failed_attempts [10, 20, 30, 40, 1000000000] (new_user 1 ''alice'' ''hash'')))) = 0
   \<and> account_locked_until (snd (is_account_locked 1900000000
        (fold increment_failed_attempts [10, 20, 30, 40, 1000000000] (new_user 1 ''alice'' ''hash'')))) = None"
proof -
  have h: "0 \<le> failed_login_attempts (new_user 1 ''alice'' ''hash'')"
    by (simp add: new_user_def)
  have a: "(1899999999::int) < 1000000000 + lock_duration"
    and b: "1000000000 + lock_duration \<le> (1900000000::int)"
    by (simp_all add: lock_duration_def)
  from five_failures_lock_for_15_minutes [OF h, of 1000000000 10 20 30 40] a b
  show ?thesis by blast
qed

section \<open>Lookups in the revocation store\<close>

text \<open>
  C8. is_blacklisted has exactly three behaviours. A record that exists with
  now < expires_at: True, and the database is unchanged. A record that exists and has
  expired: that record is deleted and the answer is False. No record: False, and the
  database is unchanged.
\<close>

theorem is_blacklisted_cases:
  "(case blacklisted_tokens d tok of
      Some b \<Rightarrow>
        if now < expires_at b then is_blacklisted now tok d = (True, d)
        else is_blacklisted now tok d
               = (False, d\<lparr>blacklisted_tokens := (blacklisted_tokens d)(tok := None)\<rparr>)
             \<and> blacklisted_tokens (snd (is_blacklisted now tok d)) tok = None
    | None \<Rightarrow> is_blacklisted now tok d = (False, d))"
  by (simp add: is_blacklisted_def split: option.split)

section \<open>Facts about the building blocks\<close>

lemma is_account_locked_True:
  "is_account_locked now u = (True, u') \<Longrightarrow>
   u' = u \<and> (\<exists>t. account_locked_until u = Some t \<and> now < t)"
  by (auto simp: is_account_locked_def split: option.splits if_splits)

lemma is_account_locked_False:
  "is_account_locked now u = (False, u') \<Longrightarrow> account_locked_until u' = None"
  by (auto simp: is_account_locked_def split: option.splits if_splits)

lemma auth_logs_save [simp]: "auth_logs (save k u d) = auth_logs d"
  by (simp add: save_def)

lemma users_save [simp]: "users (save k u d) = (users d)(k \<mapsto> u)"
  by (simp add: save_def)

text \<open>
  Writing an object back unchanged changes nothing: is\_account\_locked saves only on its
  lapse branch, and on the other two the object is the row as loaded.
\<close>

lemma save_unchanged: "users d k = Some u \<Longrightarrow> save k u d = d"
  by (simp add: save_def map_upd_triv)

lemma users_log_auth_event [simp]: "users (log_auth_event now ev d) = users d"
  by (simp add: log_auth_event_def)

lemma auth_logs_log_auth_event [simp]:
  "auth_logs (log_auth_event now ev d) = auth_logs d @
     [\<lparr>log_user = map_option user_id (ev_user ev),
       username_attempted = ev_username ev,
       event_type = ev_event_type ev,
       ip_address = ev_ip_address ev,
       user_agent = ev_user_agent ev,
       success = ev_success ev,
       failure_reason = ev_failure_reason ev,
       created_at = now\<rparr>]"
  by (simp add: log_auth_event_def)

lemma map_of_error_response [simp]:
  "map_of (error_response c m) ''success'' = Some (JBool False)"
  "map_of (error_response c m) ''error_code'' = Some (JStr c)"
  by (simp_all add: error_response_def)

lemma user_id_increment_failed_attempts [simp]:
  "user_id (increment_failed_attempts t u) = user_id u"
  by (simp add: increment_failed_attempts_def Let_def)

text \<open>
  The lock check that follows a recorded failure, when it is made less than 15 minutes
  after the failure: it answers whether the counter has reached 5, and changes nothing.
\<close>

lemma recheck_after_increment:
  assumes "account_locked_until u1 = None" and "now2 < now1 + lock_duration"
  shows "is_account_locked now2 (increment_failed_attempts now1 u1)
         = (5 \<le> failed_login_attempts u1 + 1, increment_failed_attempts now1 u1)"
  using assms by (simp add: is_account_locked_def increment_failed_attempts_def Let_def)

lemma increment_lock_iff:
  "account_locked_until u1 = None \<Longrightarrow>
   (account_locked_until (increment_failed_attempts now1 u1) \<noteq> None)
     = (5 \<le> failed_login_attempts u1 + 1)"
  by (simp add: increment_failed_attempts_def Let_def)

text \<open>The row of the user after a call of login, on each of its paths.\<close>

lemma login_users:
  "users (snd (login env clk uname pw ip ua d)) =
     (case users d uname of
        None \<Rightarrow> users d
      | Some user0 \<Rightarrow>
          (let user1 = snd (is_account_locked (now_lock_check clk) user0) in
           (users d)(uname \<mapsto>
             (if fst (is_account_locked (now_lock_check clk) user0) \<or> \<not> is_active user1
              then user1
              else if \<not> check_password env pw (password user1)
                then snd (is_account_locked (now_recheck clk)
                            (increment_failed_attempts (now_increment clk) user1))
              else (reset_failed_attempts user1)
                     \<lparr>last_login := Some (now_last_login clk), last_login_ip := Some ip\<rparr>))))"
  by (simp add: login_def Let_def split: option.split prod.split)

lemma lockout_invariant_increment:
  "lockout_invariant u \<Longrightarrow> lockout_invariant (increment_failed_attempts now u)"
  by (auto simp: lockout_invariant_def increment_failed_attempts_def Let_def)

lemma lockout_invariant_reset: "lockout_invariant (reset_failed_attempts u)"
  by (simp add: lockout_invariant_def reset_failed_attempts_def)

lemma lockout_invariant_is_account_locked:
  "lockout_invariant u \<Longrightarrow> lockout_invariant (snd (is_account_locked now u))"
  by (auto simp: lockout_invariant_def is_account_locked_def split: option.splits)

lemma lockout_invariant_last_login:
  "lockout_invariant (u\<lparr>last_login := a, last_login_ip := b\<rparr>) = lockout_invariant u"
  by (simp add: lockout_invariant_def)

lemma login_preserves_lockout_invariant:
  assumes "\<forall>n v. users d n = Some v \<longrightarrow> lockout_invariant v"
  shows "\<forall>n v. users (snd (login env clk uname pw ip ua d)) n = Some v \<longrightarrow> lockout_invariant v"
proof (cases "users d uname")
  case None
  then show ?thesis using assms by (simp add: login_users)
next
  case (Some user0)
  then have "lockout_invariant user0" using assms by blast
  then show ?thesis
    using assms Some
    by (auto simp: login_users Let_def lockout_invariant_increment lockout_invariant_reset
          lockout_invariant_is_account_locked lockout_invariant_last_login)
qed

lemma order_by_created_at_desc_sorted:
  "sorted_wrt (\<lambda>a b. created_at b \<le> created_at a) (order_by_created_at_desc rows)"
proof -
  have "sorted (map (\<lambda>l. - created_at l) (order_by_created_at_desc rows))"
    unfolding order_by_created_at_desc_def by (rule sorted_sort_key)
  then show ?thesis by (simp add: sorted_map)
qed

lemma order_by_created_at_desc_mset: "mset (order_by_created_at_desc rows) = mset rows"
  by (simp add: order_by_created_at_desc_def)

section \<open>The repository's scenarios, run on the model\<close>

text \<open>
  One wrong password for alice: AUTH-001 and one recorded failure
  (test\_login\_with\_wrong\_password\_fails).
\<close>

lemma scenario_one_wrong_password:
  "map_of (fst (login ref_env clock0 ''alice'' ''WrongPass1!'' ''10.0.0.1'' ''ua'' db0)) ''error_code''
     = Some (JStr ''AUTH-001'')
   \<and> map_option failed_login_attempts
        (users (snd (login ref_env clock0 ''alice'' ''WrongPass1!'' ''10.0.0.1'' ''ua'' db0)) ''alice'')
     = Some 1"
  by (simp add: login_def Let_def ref_env_def db0_def alice_def new_user_def clock0_def
        is_account_locked_def increment_failed_attempts_def save_def log_auth_event_def
        INVALID_CREDENTIALS_def)

text \<open>
  Five wrong passwords, then the right one: AUTH-003
  (test\_five\_failed\_logins\_lock\_account).
\<close>

lemma scenario_sixth_attempt_locked:
  "map_of (fst (login ref_env clock0 ''alice'' ''Secret123!'' ''10.0.0.1'' ''ua''
     (snd (login ref_env clock0 ''alice'' ''WrongPass1!'' ''10.0.0.1'' ''ua''
     (snd (login ref_env clock0 ''alice'' ''WrongPass1!'' ''10.0.0.1'' ''ua''
     (snd (login ref_env clock0 ''alice'' ''WrongPass1!'' ''10.0.0.1'' ''ua''
     (snd (login ref_env clock0 ''alice'' ''WrongPass1!'' ''10.0.0.1'' ''ua''
     (snd (login ref_env clock0 ''alice'' ''WrongPass1!'' ''10.0.0.1'' ''ua'' db0))))))))))))
     ''error_code'' = Some (JStr ''AUTH-003'')"
  by (simp add: login_def Let_def ref_env_def db0_def alice_def new_user_def clock0_def
        is_account_locked_def increment_failed_attempts_def save_def log_auth_event_def
        INVALID_CREDENTIALS_def ACCOUNT_LOCKED_def lock_duration_def)

section \<open>One audit record for every login\<close>

text \<open>
  C2. Every call of login, on each of its paths, appends exactly one record to the audit
  log and leaves the earlier records as they were. The audit trail of the whole table
  holds the records of the log, and the audit trail of one user holds exactly the records
  of the log that refer to that user; each is ordered by creation time, newest first.
\<close>

theorem login_appends_one_audit_record:
  "(\<exists>l. auth_logs (snd (login env clk uname pw ip ua d)) = auth_logs d @ [l])
   \<and> length (auth_logs (snd (login env clk uname pw ip ua d))) = length (auth_logs d) + 1
   \<and> sorted_wrt (\<lambda>a b. created_at b \<le> created_at a)
        (auth_logs_all (snd (login env clk uname pw ip ua d)))
   \<and> mset (auth_logs_all (snd (login env clk uname pw ip ua d)))
        = mset (auth_logs (snd (login env clk uname pw ip ua d)))
   \<and> sorted_wrt (\<lambda>a b. created_at b \<le> created_at a)
        (auth_logs_of_user uid (snd (login env clk uname pw ip ua d)))
   \<and> mset (auth_logs_of_user uid (snd (login env clk uname pw ip ua d)))
        = mset (filter (\<lambda>l. log_user l = Some uid)
                  (auth_logs (snd (login env clk uname pw ip ua d))))"
proof -
  have one: "\<exists>l. auth_logs (snd (login env clk uname pw ip ua d)) = auth_logs d @ [l]"
    by (simp add: login_def Let_def split: option.split prod.split)
  then have len: "length (auth_logs (snd (login env clk uname pw ip ua d))) = length (auth_logs d) + 1"
    by auto
  show ?thesis
    using one len
    by (simp add: auth_logs_all_def auth_logs_of_user_def order_by_created_at_desc_sorted
          order_by_created_at_desc_mset)
qed

section \<open>Refreshing an access token\<close>

text \<open>
  C3. When the revocation store holds a record for the token whose expiry is still in the
  future, refresh\_access\_token returns the error TOKEN\_REVOKED, whatever the token
  library would say of the token: the result does not depend on the library at all.
\<close>

theorem refresh_revoked_before_parsing:
  assumes "blacklisted_tokens d tok = Some b" and "now < expires_at b"
  shows "refresh_access_token env now tok d
           = (error_response TOKEN_REVOKED ''Token has been revoked'', d)"
  using assms by (simp add: refresh_access_token_def is_blacklisted_def)

theorem refresh_revoked_before_parsing_witness:
  "RefreshToken ref_env ''garbage'' = Inl (TokenError ''Token is invalid or expired'')
   \<and> map_of (fst (refresh_access_token ref_env 50 ''garbage''
        (db0\<lparr>blacklisted_tokens := [''garbage'' \<mapsto>
            \<lparr>token = ''garbage'', token_user = 1, reason = ''logout'', expires_at = 60\<rparr>]\<rparr>)))
        ''error_code'' = Some (JStr ''AUTH-005'')"
  using refresh_revoked_before_parsing
    [of "db0\<lparr>blacklisted_tokens := [''garbage'' \<mapsto>
            \<lparr>token = ''garbage'', token_user = 1, reason = ''logout'', expires_at = 60\<rparr>]\<rparr>"
        "''garbage''"
        "\<lparr>token = ''garbage'', token_user = 1, reason = ''logout'', expires_at = 60\<rparr>"
        50 ref_env]
  by (simp add: ref_env_def TOKEN_REVOKED_def)

text \<open>
  C10. refresh\_access\_token leaves the users table and the audit log as they were, on
  every path. The database after the call is the database before it, or the database
  before it without the expired revocation record of the token.
\<close>

theorem refresh_access_token_frame:
  "users (snd (refresh_access_token env now tok d)) = users d
   \<and> auth_logs (snd (refresh_access_token env now tok d)) = auth_logs d
   \<and> (snd (refresh_access_token env now tok d) = d
      \<or> (\<exists>b. blacklisted_tokens d tok = Some b \<and> expires_at b \<le> now
            \<and> snd (refresh_access_token env now tok d)
                = d\<lparr>blacklisted_tokens := (blacklisted_tokens d)(tok := None)\<rparr>))"
  by (auto simp: refresh_access_token_def is_blacklisted_def
      split: option.splits sum.splits token_exc.splits)

section \<open>Status codes of the refresh endpoint\<close>

text \<open>
  C4, as the specification states it, fails: a token that is not revoked and that the
  token library rejects is answered with status 401, not 400.
\<close>

theorem refresh_invalid_token_is_401:
  "RefreshToken ref_env ''invalid.token.string'' = Inl (TokenError ''Token is invalid or expired'')
   \<and> blacklisted_tokens db0 ''invalid.token.string'' = None
   \<and> ref_serializer [(''refresh_token'', JStr ''invalid.token.string'')]
       = Inr ''invalid.token.string''
   \<and> fst (refresh ref_serializer ref_env 0
             [(''refresh_token'', JStr ''invalid.token.string'')] db0)
       = Inr \<lparr>data = [(''success'', JBool False), (''error_code'', JStr ''AUTH-006''),
                      (''message'', JStr ''Invalid token: Token is invalid or expired'')],
              status = 401\<rparr>"
  by (simp add: refresh_def refresh_access_token_def is_blacklisted_def ref_env_def db0_def
       ref_serializer_def error_response_def TOKEN_REFRESH_FAILED_def)

text \<open>
  C4, amended. The endpoint answers 400 when the serializer rejects the request, with the
  serializer's errors as the body. For a request the serializer accepts it answers 401
  with TOKEN\_REVOKED for a revoked token, 401 with TOKEN\_REFRESH\_FAILED for a token that
  is not revoked and that the token library rejects, and 200 otherwise.
\<close>

theorem refresh_status_codes:
  "(case ser req of
      Inl errors \<Rightarrow> refresh ser env now req d = (Inr \<lparr>data = errors, status = 400\<rparr>, d)
    | Inr tok \<Rightarrow>
        (\<exists>r. fst (refresh ser env now req d) = Inr r
           \<and> data r = fst (refresh_access_token env now tok d)
           \<and> status r =
               (if fst (is_blacklisted now tok d) then 401
                else if isl (RefreshToken env tok) then 401 else 200)
           \<and> map_of (data r) ''error_code'' =
               (if fst (is_blacklisted now tok d) then Some (JStr TOKEN_REVOKED)
                else if isl (RefreshToken env tok) then Some (JStr TOKEN_REFRESH_FAILED)
                else None)))"
  by (auto simp: refresh_def refresh_access_token_def Let_def TOKEN_REVOKED_def
        TOKEN_REFRESH_FAILED_def success_response_def dict_merge_def
      split: sum.splits prod.splits token_exc.splits)

theorem refresh_status_codes_witness:
  "refresh ref_serializer ref_env 50 [] db0
     = (Inr \<lparr>data = [(''refresh_token'', JStr ''This field is required.'')], status = 400\<rparr>, db0)
   \<and> (\<exists>r. fst (refresh ref_serializer ref_env 50 [(''refresh_token'', JStr ''garbage'')]
               (db0\<lparr>blacklisted_tokens := [''garbage'' \<mapsto>
                  \<lparr>token = ''garbage'', token_user = 1, reason = ''logout'', expires_at = 60\<rparr>]\<rparr>))
            = Inr r
          \<and> status r = 401 \<and> map_of (data r) ''error_code'' = Some (JStr ''AUTH-005''))
   \<and> (\<exists>r. fst (refresh ref_serializer ref_env 50 [(''refresh_token'', JStr ''garbage'')] db0)
            = Inr r
          \<and> status r = 401 \<and> map_of (data r) ''error_code'' = Some (JStr ''AUTH-006''))
   \<and> (\<exists>r. fst (refresh ref_serializer ref_env 50 [(''refresh_token'', JStr ''refresh.alice'')] db0)
            = Inr r
          \<and> status r = 200)"
proof -
  have a: "ref_serializer [] = Inl [(''refresh_token'', JStr ''This field is required.'')]"
    and b: "ref_serializer [(''refresh_token'', JStr ''garbage'')] = Inr ''garbage''"
    and c: "ref_serializer [(''refresh_token'', JStr ''refresh.alice'')] = Inr ''refresh.alice''"
    by (simp_all add: ref_serializer_def)
  have p: "isl (RefreshToken ref_env ''garbage'')" "\<not> isl (RefreshToken ref_env ''refresh.alice'')"
    by (simp_all add: ref_env_def)
  have r: "fst (is_blacklisted 50 ''garbage''
                 (db0\<lparr>blacklisted_tokens := [''garbage'' \<mapsto>
                    \<lparr>token = ''garbage'', token_user = 1, reason = ''logout'', expires_at = 60\<rparr>]\<rparr>))"
      "\<not> fst (is_blacklisted 50 ''garbage'' db0)"
      "\<not> fst (is_blacklisted 50 ''refresh.alice'' db0)"
    by (simp_all add: is_blacklisted_def db0_def)
  show ?thesis
    using refresh_status_codes [where ser = ref_serializer and req = "[]" and env = ref_env
        and now = 50 and d = db0]
      refresh_status_codes [where ser = ref_serializer
        and req = "[(''refresh_token'', JStr ''garbage'')]" and env = ref_env and now = 50
        and d = "db0\<lparr>blacklisted_tokens := [''garbage'' \<mapsto>
            \<lparr>token = ''garbage'', token_user = 1, reason = ''logout'', expires_at = 60\<rparr>]\<rparr>"]
      refresh_status_codes [where ser = ref_serializer
        and req = "[(''refresh_token'', JStr ''garbage'')]" and env = ref_env and now = 50
        and d = db0]
      refresh_status_codes [where ser = ref_serializer
        and req = "[(''refresh_token'', JStr ''refresh.alice'')]" and env = ref_env and now = 50
        and d = db0]
    by (simp only: a b c p r sum.case if_True if_False TOKEN_REVOKED_def TOKEN_REFRESH_FAILED_def)
       blast
qed

section \<open>Login with a wrong password\<close>

text \<open>
  C5. The user exists, the lock check at the top of login answers False (leaving the user
  u1), the account is active and the password does not match the stored hash; the lock
  check after the failure is made less than 15 minutes after the failure is recorded.
  Then the stored user is u1 after increment\_failed\_attempts, whose counter is one more
  than that of u1; the audit log gains one login\_failed record with the reason
  "Invalid password"; and the error code is ACCOUNT\_LOCKED when the user was unlocked
  before the failure and is locked after it, and INVALID\_CREDENTIALS otherwise.
\<close>

theorem wrong_password_login_records_failure:
  assumes "users d uname = Some u"
    and "is_account_locked (now_lock_check clk) u = (False, u1)"
    and "is_active u1"
    and "\<not> check_password env pw (password u1)"
    and "now_recheck clk < now_increment clk + lock_duration"
  shows "users (snd (login env clk uname pw ip ua d)) uname
           = Some (increment_failed_attempts (now_increment clk) u1)
       \<and> failed_login_attempts (increment_failed_attempts (now_increment clk) u1)
           = failed_login_attempts u1 + 1
       \<and> auth_logs (snd (login env clk uname pw ip ua d)) = auth_logs d @
           [\<lparr>log_user = Some (user_id u1), username_attempted = uname,
             event_type = ''login_failed'', ip_address = ip, user_agent = ua,
             success = False, failure_reason = ''Invalid password'', created_at = now_log clk\<rparr>]
       \<and> map_of (fst (login env clk uname pw ip ua d)) ''success'' = Some (JBool False)
       \<and> map_of (fst (login env clk uname pw ip ua d)) ''error_code''
           = Some (JStr (if account_locked_until u1 = None
                           \<and> account_locked_until (increment_failed_attempts (now_increment clk) u1)
                               \<noteq> None
                         then ACCOUNT_LOCKED else INVALID_CREDENTIALS))"
proof -
  have unlocked: "account_locked_until u1 = None"
    using assms(2) by (rule is_account_locked_False)
  note recheck = recheck_after_increment [OF unlocked assms(5)]
  show ?thesis
    using assms(1-4) unlocked increment_lock_iff [OF unlocked, of "now_increment clk"]
    by (simp add: login_def Let_def recheck increment_failed_attempts_count)
qed

theorem wrong_password_login_records_failure_witness:
  "map_of (fst (login ref_env clock0 ''alice'' ''WrongPass1!'' ''10.0.0.1'' ''ua''
             (db0\<lparr>users := [''alice'' \<mapsto> alice\<lparr>failed_login_attempts := 4\<rparr>]\<rparr>)))
     ''error_code'' = Some (JStr ''AUTH-003'')
   \<and> map_option failed_login_attempts
        (users (snd (login ref_env clock0 ''alice'' ''WrongPass1!'' ''10.0.0.1'' ''ua''
                  (db0\<lparr>users := [''alice'' \<mapsto> alice\<lparr>failed_login_attempts := 4\<rparr>]\<rparr>)))
           ''alice'') = Some 5
   \<and> map_of (fst (login ref_env clock0 ''alice'' ''WrongPass1!'' ''10.0.0.1'' ''ua'' db0))
     ''error_code'' = Some (JStr ''AUTH-001'')
   \<and> map (\<lambda>l. (event_type l, failure_reason l))
        (auth_logs (snd (login ref_env clock0 ''alice'' ''WrongPass1!'' ''10.0.0.1'' ''ua'' db0)))
       = [(''login_failed'', ''Invalid password'')]"
proof -
  let ?a4 = "alice\<lparr>failed_login_attempts := 4\<rparr>"
  let ?d4 = "db0\<lparr>users := [''alice'' \<mapsto> ?a4]\<rparr>"
  have h1: "users ?d4 ''alice'' = Some ?a4" "users db0 ''alice'' = Some alice"
    by (simp_all add: db0_def)
  have h2: "is_account_locked (now_lock_check clock0) ?a4 = (False, ?a4)"
      "is_account_locked (now_lock_check clock0) alice = (False, alice)"
    by (simp_all add: is_account_locked_def alice_def new_user_def)
  have h3: "is_active ?a4" "is_active alice"
    by (simp_all add: alice_def new_user_def)
  have h4: "\<not> check_password ref_env ''WrongPass1!'' (password ?a4)"
      "\<not> check_password ref_env ''WrongPass1!'' (password alice)"
    by (simp_all add: ref_env_def alice_def new_user_def)
  have h5: "now_recheck clock0 < now_increment clock0 + lock_duration"
    by (simp add: clock0_def lock_duration_def)
  have e4: "account_locked_until (increment_failed_attempts (now_increment clock0) ?a4) \<noteq> None"
      "account_locked_until ?a4 = None"
      "failed_login_attempts ?a4 = 4"
    by (simp_all add: increment_failed_attempts_def Let_def alice_def new_user_def)
  have e0: "account_locked_until (increment_failed_attempts (now_increment clock0) alice) = None"
    by (simp add: increment_failed_attempts_def Let_def alice_def new_user_def)
  from wrong_password_login_records_failure [OF h1(1) h2(1) h3(1) h4(1) h5, of "''10.0.0.1''" "''ua''"]
    wrong_password_login_records_failure [OF h1(2) h2(2) h3(2) h4(2) h5, of "''10.0.0.1''" "''ua''"]
  show ?thesis
    by (simp add: e4 e0 ACCOUNT_LOCKED_def INVALID_CREDENTIALS_def db0_def)
qed

section \<open>Successful login\<close>

text \<open>
  C6. The user exists, the lock check at the top of login answers False (leaving the user
  u1), the account is active and the password matches, whatever the failure counter was.
  Then the stored user is u1 with failed\_login\_attempts 0, no lock, and the request's
  address as last\_login\_ip; the result is a success carrying the access token and the
  refresh token minted for that user, with role and username as claims, and the user
  projection, whose keys are exactly id, username, email, role, full\_name and department.
\<close>

theorem successful_login_resets_and_returns_tokens:
  assumes "users d uname = Some u"
    and "is_account_locked (now_lock_check clk) u = (False, u1)"
    and "is_active u1"
    and "check_password env pw (password u1)"
  shows "\<exists>u' tok.
         users (snd (login env clk uname pw ip ua d)) uname = Some u'
       \<and> u' = u1\<lparr>failed_login_attempts := 0, account_locked_until := None,
                 last_login := Some (now_last_login clk), last_login_ip := Some ip\<rparr>
       \<and> failed_login_attempts u' = 0 \<and> account_locked_until u' = None
       \<and> last_login_ip u' = Some ip
       \<and> tok = setitem env (setitem env (for_user env u') ''role'' (role u'))
                  ''username'' (username u')
       \<and> fst (login env clk uname pw ip ua d)
           = [(''success'', JBool True),
              (''access_token'', JStr (access_token env tok)),
              (''refresh_token'', JStr (token_str env tok)),
              (''user'', JObj (serialize_user u'))]
       \<and> map fst (serialize_user u')
           = [''id'', ''username'', ''email'', ''role'', ''full_name'', ''department'']
       \<and> ''password'' \<notin> set (map fst (serialize_user u'))"
  using assms
  by (simp add: login_def Let_def reset_failed_attempts_def success_response_def dict_merge_def
        serialize_user_def)

theorem successful_login_resets_and_returns_tokens_witness:
  "map_option (\<lambda>v. (failed_login_attempts v, account_locked_until v, last_login_ip v))
     (users (snd (login ref_env clock0 ''alice'' ''Secret123!'' ''10.0.0.1'' ''ua''
               (db0\<lparr>users := [''alice'' \<mapsto> alice\<lparr>failed_login_attempts := 3\<rparr>]\<rparr>)))
        ''alice'') = Some (0, None, Some ''10.0.0.1'')
   \<and> map fst (fst (login ref_env clock0 ''alice'' ''Secret123!'' ''10.0.0.1'' ''ua''
               (db0\<lparr>users := [''alice'' \<mapsto> alice\<lparr>failed_login_attempts := 3\<rparr>]\<rparr>)))
       = [''success'', ''access_token'', ''refresh_token'', ''user'']"
proof -
  let ?a3 = "alice\<lparr>failed_login_attempts := 3\<rparr>"
  let ?d3 = "db0\<lparr>users := [''alice'' \<mapsto> ?a3]\<rparr>"
  have h1: "users ?d3 ''alice'' = Some ?a3"
    by (simp add: db0_def)
  have h2: "is_account_locked (now_lock_check clock0) ?a3 = (False, ?a3)"
    by (simp add: is_account_locked_def alice_def new_user_def)
  have h3: "is_active ?a3"
    by (simp add: alice_def new_user_def)
  have h4: "check_password ref_env ''Secret123!'' (password ?a3)"
    by (simp add: ref_env_def alice_def new_user_def)
  from successful_login_resets_and_returns_tokens [OF h1 h2 h3 h4, of "''10.0.0.1''" "''ua''"]
  show ?thesis by auto
qed

section \<open>Preservation of the lockout invariant\<close>

text \<open>
  C7. The lockout invariant holds of a new user; increment\_failed\_attempts
  (record\_failure) and is\_account\_locked, on each of its branches, preserve it;
  reset\_failed\_attempts (record\_success) establishes it; and when it holds of every
  stored user before a call of login, it holds of every stored user after the call,
  whatever path the call takes.
\<close>

theorem lockout_invariant_preserved:
  "lockout_invariant (new_user uid name pwhash)
   \<and> (lockout_invariant u \<longrightarrow> lockout_invariant (increment_failed_attempts now u))
   \<and> lockout_invariant (reset_failed_attempts u)
   \<and> (lockout_invariant u \<longrightarrow> lockout_invariant (snd (is_account_locked now u)))
   \<and> ((\<forall>n v. users d n = Some v \<longrightarrow> lockout_invariant v) \<longrightarrow>
        (\<forall>n v. users (snd (login env clk uname pw ip ua d)) n = Some v \<longrightarrow> lockout_invariant v))"
proof -
  have "lockout_invariant (new_user uid name pwhash)"
    by (simp add: lockout_invariant_def new_user_def)
  then show ?thesis
    using lockout_invariant_increment [of u now] lockout_invariant_reset [of u]
      lockout_invariant_is_account_locked [of u now]
      login_preserves_lockout_invariant [of d env clk uname pw ip ua]
    by blast
qed

theorem lockout_invariant_preserved_witness:
  "lockout_invariant (alice\<lparr>failed_login_attempts := 4\<rparr>)
   \<and> account_locked_until (increment_failed_attempts 7 (alice\<lparr>failed_login_attempts := 4\<rparr>))
       = Some (7 + lock_duration)
   \<and> lockout_invariant (increment_failed_attempts 7 (alice\<lparr>failed_login_attempts := 4\<rparr>))
   \<and> lockout_invariant (snd (is_account_locked 8 (alice\<lparr>failed_login_attempts := 4\<rparr>)))
   \<and> (\<exists>v. users (snd (login ref_env clock0 ''alice'' ''WrongPass1!'' ''10.0.0.1'' ''ua''
                        (db0\<lparr>users := [''alice'' \<mapsto> alice\<lparr>failed_login_attempts := 4\<rparr>]\<rparr>)))
              ''alice'' = Some v
          \<and> failed_login_attempts v = 5 \<and> account_locked_until v \<noteq> None
          \<and> lockout_invariant v)"
proof -
  let ?a4 = "alice\<lparr>failed_login_attempts := 4\<rparr>"
  let ?d4 = "db0\<lparr>users := [''alice'' \<mapsto> ?a4]\<rparr>"
  let ?d' = "snd (login ref_env clock0 ''alice'' ''WrongPass1!'' ''10.0.0.1'' ''ua'' ?d4)"
  note inst = lockout_invariant_preserved [where u = ?a4 and now = 7 and d = ?d4
      and env = ref_env and clk = clock0 and uname = "''alice''" and pw = "''WrongPass1!''"
      and ip = "''10.0.0.1''" and ua = "''ua''"]
    lockout_invariant_preserved [where u = ?a4 and now = 8]
  have i4: "lockout_invariant ?a4"
    by (simp add: lockout_invariant_def alice_def new_user_def)
  have all4: "\<forall>n v. users ?d4 n = Some v \<longrightarrow> lockout_invariant v"
    using i4 by (simp add: db0_def)
  have lock: "account_locked_until (increment_failed_attempts 7 ?a4) = Some (7 + lock_duration)"
    by (simp add: increment_failed_attempts_def Let_def alice_def new_user_def)
  have stored: "users ?d' ''alice'' = Some (increment_failed_attempts 101 ?a4)"
    by (simp add: login_users db0_def Let_def is_account_locked_def increment_failed_attempts_def
          alice_def new_user_def ref_env_def clock0_def lock_duration_def)
  have fields: "failed_login_attempts (increment_failed_attempts 101 ?a4) = 5"
      "account_locked_until (increment_failed_attempts 101 ?a4) \<noteq> None"
    by (simp_all add: increment_failed_attempts_def Let_def alice_def new_user_def)
  from inst all4 stored have "lockout_invariant (increment_failed_attempts 101 ?a4)"
    by blast
  with inst i4 lock stored fields show ?thesis
    by blast
qed

section \<open>The object-level permission\<close>

text \<open>
  C9. has\_object\_permission is the specification's function of the requester's role and
  of the ownership match: it grants access when the role is admin, grants access to the
  recorded owner whatever the role, and denies everyone else. It reads nothing else and
  has no state. So a user whose role is admin passes for every object, a user passes for
  an object that records that user as its owner, and an anonymous requester never passes.
\<close>

theorem has_object_permission_is_role_or_owner:
  "has_object_permission ru ob
     = spec_object_permission (requester_role ru) (ownership_match ru ob)
   \<and> has_object_permission (AuthUser (u\<lparr>role := ''admin''\<rparr>)) ob
   \<and> has_object_permission (AuthUser u) (ob\<lparr>uploaded_by := Attr (Some (user_id u))\<rparr>)
   \<and> has_object_permission (AuthUser u)
        (ob\<lparr>uploaded_by := NoAttr, obj_user := Attr (Some (user_id u))\<rparr>)
   \<and> \<not> has_object_permission AnonymousUser ob"
  by (auto simp: has_object_permission_def spec_object_permission_def requester_role_def
        ownership_match_def recorded_owner_def ref_eq_def
      split: request_user.splits attr.splits option.splits)

end
